theory Spec2Isabelle
  imports Main "HOL-Library.Word"
begin

section \<open>PiWiFi web client: chunked responses and command dispatch (src/app.js)\<close>

subsection \<open>Values\<close>

type_synonym byte = "8 word"
type_synonym bytes = "byte list"

text \<open>
  The exceptions of the JavaScript runtime that the modelled code can meet. The message
  text of an exception is engine specific and is not modelled: a log line that prints
  \<^verbatim>\<open>e.message\<close> carries the exception itself.
\<close>

datatype js_error = SyntaxError | TypeError | RangeError | OtherError

text \<open>
  What \<^verbatim>\<open>JSON.parse\<close> returns. The number type is left open (\<open>'n\<close>): no
  line of the modelled code computes with a number of a message. An object is the list of
  its own properties, each key once; \<open>None\<close> of type \<open>'n json option\<close> is \<^verbatim>\<open>undefined\<close>.
\<close>

datatype 'n json =
    JNull
  | JBool bool
  | JNum 'n
  | JStr string
  | JArr "'n json list"
  | JObj "(string \<times> 'n json) list"

text \<open>
  Reading one of the properties \<^verbatim>\<open>type\<close>, \<^verbatim>\<open>networks\<close>,
  \<^verbatim>\<open>ssid\<close>, \<^verbatim>\<open>message\<close> of a value that is not \<^verbatim>\<open>null\<close>:
  an object gives its own property, every other value (array, string, number, boolean)
  gives \<^verbatim>\<open>undefined\<close>, since no prototype defines these four names.
\<close>

fun member :: "'n json \<Rightarrow> string \<Rightarrow> 'n json option" where
  "member (JObj kvs) k = map_of kvs k"
| "member _ k = None"

text \<open>
  A template literal converts the value it interpolates to a string (ToString), and the
  conversion can throw. \<^verbatim>\<open>undefined\<close>, \<^verbatim>\<open>null\<close>, booleans, numbers and strings
  always convert. An object converts through \<^verbatim>\<open>toString\<close>: the inherited one
  gives "[object Object]", but an own property named \<^verbatim>\<open>toString\<close> of a parsed
  object is never callable, \<^verbatim>\<open>valueOf\<close> then yields no primitive, and the conversion
  throws a TypeError. An array converts through \<^verbatim>\<open>join\<close>, which converts every
  element other than \<^verbatim>\<open>null\<close>. \<open>converts v\<close> holds when the conversion of
  \<open>v\<close> succeeds.
\<close>

fun converts :: "'n json \<Rightarrow> bool" where
  "converts (JObj kvs) = (map_of kvs ''toString'' = None)"
| "converts (JArr xs) = list_all converts xs"
| "converts _ = True"

definition interpolates :: "'n json option \<Rightarrow> bool" where
  "interpolates v = (case v of None \<Rightarrow> True | Some x \<Rightarrow> converts x)"

subsection \<open>Effects\<close>

text \<open>
  The template of each \<^verbatim>\<open>log(...)\<close> call of the source, with the values it
  interpolates as arguments. \<open>ChunkRecu\<close> carries \<^verbatim>\<open>chunkIndex + 1\<close>
  (\<open>None\<close> is \<^verbatim>\<open>NaN\<close>), \<^verbatim>\<open>totalChunks\<close> and
  \<^verbatim>\<open>chunkData.length\<close>; \<open>Envoi\<close> carries what \<^verbatim>\<open>JSON.stringify\<close>
  returned, a string or \<^verbatim>\<open>undefined\<close>.
\<close>

datatype 'n message =
    ChunkRecu "nat option" "nat option" nat
  | ErreurJSON js_error
  | Recu "'n json option"
  | ConnexionVerifiee
  | Monitoring "'n json option"
  | MonitoringArrete
  | Erreur "'n json option"
  | NonConnecte
  | Envoi "string option"

text \<open>The three handlers that draw on the page; their bodies are user interface code.\<close>

datatype 'n ui_call =
    DisplayNetworks "'n json option"
  | UpdateSignal "'n json"
  | DisplayChannels "'n json"

text \<open>
  What the code does to the outside, in order: a line of the on-page log
  (\<^verbatim>\<open>log(message, type)\<close>), a call of a drawing handler, a write to the command
  characteristic, and an exception that left an event listener.
\<close>

datatype 'n event =
    Log "'n message" string
  | Call "'n ui_call"
  | Write bytes
  | Uncaught js_error

text \<open>
  The platform functions the code calls: \<^verbatim>\<open>TextDecoder.decode\<close>,
  \<^verbatim>\<open>JSON.parse\<close> (which throws on malformed text) and the drawing handlers
  (\<open>ui c\<close> is the exception the call \<open>c\<close> throws, if any).
\<close>

record 'n env =
  decode :: "bytes \<Rightarrow> string"
  parse :: "string \<Rightarrow> js_error + 'n json"
  ui :: "'n ui_call \<Rightarrow> js_error option"

subsection \<open>handleResponse (lines 200-232)\<close>

text \<open>
  The result is the trace of effects and the exception thrown, if any.
  \<^verbatim>\<open>response.type\<close> throws a TypeError on \<^verbatim>\<open>null\<close>, and the template
  literal of line 201 throws one when the type does not convert to a string: both before
  anything is logged. The \<^verbatim>\<open>switch\<close> compares with \<^verbatim>\<open>===\<close>, so only a
  string matches a case, and it has no default. In the cases \<^verbatim>\<open>monitor_started\<close>
  and \<^verbatim>\<open>error\<close> the template literal is evaluated before \<^verbatim>\<open>log\<close> is called:
  when the field does not convert, the TypeError is thrown and the line is not logged.
\<close>

definition invoke :: "'n env \<Rightarrow> 'n event list \<Rightarrow> 'n ui_call \<Rightarrow> 'n event list \<times> js_error option" where
  "invoke env tr c = (tr @ [Call c], ui env c)"

definition handleResponse :: "'n env \<Rightarrow> 'n json \<Rightarrow> 'n event list \<times> js_error option" where
  "handleResponse env response =
     (if response = JNull then ([], Some TypeError)
      else
        (let ty = member response ''type''
         in if interpolates ty then
              (let tr = [Log (Recu ty) '''']
               in if ty = Some (JStr ''pong'') then
                    (tr @ [Log ConnexionVerifiee ''success''], None)
                  else if ty = Some (JStr ''scan_result'') then
                    invoke env tr (DisplayNetworks (member response ''networks''))
                  else if ty = Some (JStr ''signal'') then
                    invoke env tr (UpdateSignal response)
                  else if ty = Some (JStr ''channels'') then
                    invoke env tr (DisplayChannels response)
                  else if ty = Some (JStr ''monitor_started'') then
                    (if interpolates (member response ''ssid'')
                     then (tr @ [Log (Monitoring (member response ''ssid'')) ''success''], None)
                     else (tr, Some TypeError))
                  else if ty = Some (JStr ''monitor_stopped'') then
                    (tr @ [Log MonitoringArrete ''''], None)
                  else if ty = Some (JStr ''error'') then
                    (if interpolates (member response ''message'')
                     then (tr @ [Log (Erreur (member response ''message'')) ''error''], None)
                     else (tr, Some TypeError))
                  else (tr, None))
            else ([], Some TypeError)))"

subsection \<open>onResponse (lines 155-198)\<close>

text \<open>
  The chunking state: \<^verbatim>\<open>chunks\<close> is a JavaScript array, which can have holes
  (\<open>None\<close>); \<^verbatim>\<open>expectedChunks\<close> is a number or, after a notification of a single
  byte 0, \<^verbatim>\<open>undefined\<close> (\<open>None\<close>).
\<close>

record reassembler =
  chunks :: "bytes option list"
  expectedChunks :: "nat option"

definition initial :: reassembler where
  "initial = \<lparr>chunks = [], expectedChunks = Some 0\<rparr>"

text \<open>
  \<^verbatim>\<open>chunks[chunkIndex] = chunkData\<close>. An index past the end extends the array and
  leaves holes. With \<^verbatim>\<open>chunkIndex\<close> undefined (an empty notification) the assignment
  sets the property named "undefined", which is no element of the array: the length, and
  what \<^verbatim>\<open>filter\<close>, \<^verbatim>\<open>reduce\<close> and \<^verbatim>\<open>for ... of\<close> see, do not change.
\<close>

fun store :: "bytes option list \<Rightarrow> nat option \<Rightarrow> bytes \<Rightarrow> bytes option list" where
  "store cs None d = cs"
| "store cs (Some i) d =
     (if i < length cs then cs[i := Some d]
      else cs @ replicate (i - length cs) None @ [Some d])"

text \<open>
  \<^verbatim>\<open>chunks.filter(c => c !== undefined).length\<close>: \<open>filter\<close> skips holes, and no
  stored element is \<^verbatim>\<open>undefined\<close>.
\<close>

definition receivedCount :: "bytes option list \<Rightarrow> nat" where
  "receivedCount cs = length (filter (\<lambda>c. c \<noteq> None) cs)"

text \<open>
  \<^verbatim>\<open>chunks.reduce((acc, c) => acc + c.length, 0)\<close>: \<open>reduce\<close> skips holes too.
\<close>

fun total_length :: "bytes option list \<Rightarrow> nat" where
  "total_length [] = 0"
| "total_length (None # cs) = total_length cs"
| "total_length (Some c # cs) = length c + total_length cs"

text \<open>
  \<^verbatim>\<open>fullData.set(chunk, offset)\<close> on a typed array: a RangeError when the source does
  not fit, else the bytes are copied in place.
\<close>

definition set_at :: "bytes \<Rightarrow> bytes \<Rightarrow> nat \<Rightarrow> js_error + bytes" where
  "set_at fullData chunk offset =
     (if offset + length chunk > length fullData then Inl RangeError
      else Inr (take offset fullData @ chunk @ drop (offset + length chunk) fullData))"

text \<open>
  The loop \<^verbatim>\<open>for (const chunk of chunks)\<close>. Unlike \<open>filter\<close> and
  \<open>reduce\<close>, the array iterator visits every index below the length and yields
  \<^verbatim>\<open>undefined\<close> at a hole; \<^verbatim>\<open>fullData.set(undefined, offset)\<close> throws a
  TypeError.
\<close>

fun fill :: "bytes option list \<Rightarrow> nat \<Rightarrow> bytes \<Rightarrow> js_error + bytes" where
  "fill [] offset fullData = Inr fullData"
| "fill (None # cs) offset fullData = Inl TypeError"
| "fill (Some chunk # cs) offset fullData =
     (case set_at fullData chunk offset of
        Inl e \<Rightarrow> Inl e
      | Inr fullData' \<Rightarrow> fill cs (offset + length chunk) fullData')"

text \<open>Lines 177-182: a zeroed buffer of the summed length, filled by the loop.\<close>

definition assemble :: "bytes option list \<Rightarrow> js_error + bytes" where
  "assemble cs = fill cs 0 (replicate (total_length cs) 0)"

text \<open>
  Lines 184-192: decode, then parse and dispatch inside \<^verbatim>\<open>try\<close>. The
  \<^verbatim>\<open>catch\<close> takes the exception of \<^verbatim>\<open>JSON.parse\<close> and any exception of
  \<^verbatim>\<open>handleResponse\<close> alike, and logs it; nothing is thrown further.
\<close>

definition decode_and_dispatch :: "'n env \<Rightarrow> bytes \<Rightarrow> 'n event list" where
  "decode_and_dispatch env fullData =
     (let data = decode env fullData
      in case parse env data of
           Inl e \<Rightarrow> [Log (ErreurJSON e) ''error'']
         | Inr response \<Rightarrow>
             (case handleResponse env response of
                (tr, None) \<Rightarrow> tr
              | (tr, Some e) \<Rightarrow> tr @ [Log (ErreurJSON e) ''error'']))"

text \<open>
  Lines 156-161: the header of a notification. Reading a typed array past its end gives
  \<^verbatim>\<open>undefined\<close> (\<open>None\<close>); \<^verbatim>\<open>slice(2)\<close> of a shorter array is empty.
\<close>

definition chunkIndex :: "bytes \<Rightarrow> nat option" where
  "chunkIndex val = (if 0 < length val then Some (unat (val ! 0)) else None)"

definition totalChunks :: "bytes \<Rightarrow> nat option" where
  "totalChunks val = (if 1 < length val then Some (unat (val ! 1)) else None)"

definition chunkData :: "bytes \<Rightarrow> bytes" where
  "chunkData val = drop 2 val"

text \<open>Line 163: the log line of every notification.\<close>

definition chunk_log :: "bytes \<Rightarrow> 'n event" where
  "chunk_log val =
     Log (ChunkRecu (map_option Suc (chunkIndex val)) (totalChunks val)
            (length (chunkData val))) ''''"

text \<open>
  Lines 166-171: the chunking state once the payload is stored. Index 0 empties the array
  and takes the expected count from the header first.
\<close>

definition buffered :: "reassembler \<Rightarrow> bytes \<Rightarrow> reassembler" where
  "buffered s val =
     (let s1 = (if chunkIndex val = Some 0
                then \<lparr>chunks = [], expectedChunks = totalChunks val\<rparr> else s)
      in s1\<lparr>chunks := store (chunks s1) (chunkIndex val) (chunkData val)\<rparr>)"

text \<open>
  One notification. The result is the chunking state afterwards, the trace, and the
  exception that leaves the listener, if any: the state is global, so what was assigned
  before a throw stays assigned. The completion test of line 175 compares with
  \<^verbatim>\<open>===\<close>: an undefined expected count equals no count.
\<close>

definition onResponse ::
  "'n env \<Rightarrow> reassembler \<Rightarrow> bytes \<Rightarrow> reassembler \<times> 'n event list \<times> js_error option" where
  "onResponse env s val =
     (let s2 = buffered s val
      in if Some (receivedCount (chunks s2)) = expectedChunks s2 then
           (case assemble (chunks s2) of
              Inl e \<Rightarrow> (s2, [chunk_log val], Some e)
            | Inr fullData \<Rightarrow>
                (\<lparr>chunks = [], expectedChunks = Some 0\<rparr>,
                 chunk_log val # decode_and_dispatch env fullData, None))
         else (s2, [chunk_log val], None))"

text \<open>
  The notifications of the response characteristic reach the listener one at a time, in
  arrival order (line 102). An exception that leaves the listener is reported by the
  browser and does not stop later notifications.
\<close>

fun notifications :: "'n env \<Rightarrow> reassembler \<Rightarrow> bytes list \<Rightarrow> reassembler \<times> 'n event list" where
  "notifications env s [] = (s, [])"
| "notifications env s (v # vs) =
     (case onResponse env s v of
        (s', tr, ex) \<Rightarrow>
          (case notifications env s' vs of
             (s'', tr') \<Rightarrow>
               (s'', tr @ (case ex of None \<Rightarrow> [] | Some e \<Rightarrow> [Uncaught e]) @ tr')))"

subsection \<open>sendCommand (lines 142-153)\<close>

text \<open>
  The command characteristic, with its \<^verbatim>\<open>writeValue\<close> (the rejection of the write,
  if any); \<^verbatim>\<open>commandChar\<close> is \<^verbatim>\<open>null\<close> (\<open>None\<close>) until \<^verbatim>\<open>connect\<close>
  has found it. \<^verbatim>\<open>JSON.stringify\<close> and \<^verbatim>\<open>TextEncoder.encode\<close> are
  parameters. \<^verbatim>\<open>JSON.stringify\<close> throws (a cyclic object), returns a string, or
  returns \<^verbatim>\<open>undefined\<close> (\<open>None\<close>: the command is undefined, a function or a
  symbol); the log line then reads "undefined", and \<^verbatim>\<open>encode(undefined)\<close> takes the
  default argument, the empty string, so that no byte is written.
\<close>

datatype characteristic = Characteristic (writeValue: "bytes \<Rightarrow> js_error option")

definition sendCommand ::
  "('c \<Rightarrow> js_error + string option) \<Rightarrow> (string \<Rightarrow> bytes) \<Rightarrow> characteristic option \<Rightarrow> 'c
     \<Rightarrow> 'n event list \<times> js_error option" where
  "sendCommand stringify encode commandChar cmd =
     (case commandChar of
        None \<Rightarrow> ([Log NonConnecte ''error''], None)
      | Some ch \<Rightarrow>
          (case stringify cmd of
             Inl e \<Rightarrow> ([], Some e)
           | Inr data \<Rightarrow>
               (let encoded = (case data of None \<Rightarrow> [] | Some text \<Rightarrow> encode text)
                in ([Log (Envoi data) '''', Write encoded], writeValue ch encoded))))"

subsection \<open>The wire format on the sending side\<close>

text \<open>
  A fragment as the device sends it (line 158: "First 2 bytes are chunk header: [index,
  total]"), and a message cut into payloads \<open>ps\<close>, each framed with its position and the
  number of fragments, in index order.
\<close>

definition frame :: "nat \<Rightarrow> nat \<Rightarrow> bytes \<Rightarrow> bytes" where
  "frame i n payload = of_nat i # of_nat n # payload"

definition framed :: "bytes list \<Rightarrow> bytes list" where
  "framed ps = map (\<lambda>(i, p). frame i (length ps) p) (enumerate 0 ps)"

subsection \<open>Vocabulary of the dispatch properties\<close>

text \<open>The case labels of the \<^verbatim>\<open>switch\<close> in \<^verbatim>\<open>handleResponse\<close>.\<close>

definition recognized_types :: "string list" where
  "recognized_types =
     [''pong'', ''scan_result'', ''signal'', ''channels'', ''monitor_started'',
      ''monitor_stopped'', ''error'']"

text \<open>
  The effects that only a case body of the \<^verbatim>\<open>switch\<close> produces: the log lines of
  \<^verbatim>\<open>pong\<close>, \<^verbatim>\<open>monitor_started\<close>, \<^verbatim>\<open>monitor_stopped\<close> and
  \<^verbatim>\<open>error\<close>, and the calls of the drawing handlers.
\<close>

fun handler_effect :: "'n event \<Rightarrow> bool" where
  "handler_effect (Log ConnexionVerifiee lvl) = True"
| "handler_effect (Log (Monitoring ssid) lvl) = True"
| "handler_effect (Log MonitoringArrete lvl) = True"
| "handler_effect (Log (Erreur msg) lvl) = True"
| "handler_effect (Call c) = True"
| "handler_effect _ = False"

subsection \<open>A concrete platform for the examples\<close>

text \<open>
  The general theorems hold for every platform \<open>env\<close>. The examples run on this one: bytes
  decode as ASCII, the parser knows three texts and rejects every other one, and no
  drawing handler throws.
\<close>

definition demo_parse :: "string \<Rightarrow> js_error + unit json" where
  \<open>demo_parse s =
     (if s = ''{"type":"pong"}'' then Inr (JObj [(''type'', JStr ''pong'')])
      else if s = ''{"type":"unsupported_x"}'' then Inr (JObj [(''type'', JStr ''unsupported_x'')])
      else if s = ''null'' then Inr JNull
      else Inl SyntaxError)\<close>

definition demo_env :: "unit env" where
  "demo_env = \<lparr>decode = map (\<lambda>b. char_of (unat b)), parse = demo_parse, ui = (\<lambda>c. None)\<rparr>"

section \<open>Lemmas about the model\<close>

subsection \<open>Conversion to a string\<close>

text \<open>
  Absent fields and fields that hold a string, a number, a boolean or \<^verbatim>\<open>null\<close>
  always convert; an object with an own \<^verbatim>\<open>toString\<close> does not, and then nothing is
  logged for the message.
\<close>

lemma interpolates_simps:
  "interpolates None"
  "interpolates (Some (JStr s))"
  "interpolates (Some (JNum n))"
  "interpolates (Some (JBool b))"
  "interpolates (Some JNull)"
  by (simp_all add: interpolates_def)

lemma handleResponse_unconvertible_type:
  "map_of kvs ''type'' = Some (JObj [(''toString'', v)]) \<Longrightarrow>
   handleResponse env (JObj kvs) = ([], Some TypeError)"
  by (simp add: handleResponse_def interpolates_def)

lemma handleResponse_unconvertible_message:
  "map_of kvs ''type'' = Some (JStr ''error'') \<Longrightarrow>
   map_of kvs ''message'' = Some (JObj [(''toString'', v)]) \<Longrightarrow>
   handleResponse env (JObj kvs) = ([Log (Recu (Some (JStr ''error''))) ''''], Some TypeError)"
  by (simp add: handleResponse_def interpolates_def)

subsection \<open>Assembling the buffer\<close>

lemma fill_dense:
  "None \<notin> set cs \<Longrightarrow> length buf = off + total_length cs \<Longrightarrow>
   fill cs off buf = Inr (take off buf @ concat (map the cs))"
proof (induction cs arbitrary: off buf)
  case Nil
  then show ?case by simp
next
  case (Cons c cs)
  from Cons.prems(1) obtain d where c: "c = Some d" by (cases c) auto
  let ?buf = "take off buf @ d @ drop (off + length d) buf"
  from Cons.prems(2) c have fits: "off + length d \<le> length buf" by simp
  then have set: "set_at buf d off = Inr ?buf" by (simp add: set_at_def)
  have len: "length ?buf = (off + length d) + total_length cs"
    using Cons.prems(2) c by simp
  have tk: "take (off + length d) ?buf = take off buf @ d"
    using fits by simp
  from Cons.prems(1) have "None \<notin> set cs" by simp
  from Cons.IH [OF this len] tk c set show ?case by simp
qed

lemma fill_hole:
  "None \<in> set cs \<Longrightarrow> length buf = off + total_length cs \<Longrightarrow> fill cs off buf = Inl TypeError"
proof (induction cs arbitrary: off buf)
  case Nil
  then show ?case by simp
next
  case (Cons c cs)
  show ?case
  proof (cases c)
    case None
    then show ?thesis by simp
  next
    case (Some d)
    let ?buf = "take off buf @ d @ drop (off + length d) buf"
    from Cons.prems(2) Some have fits: "off + length d \<le> length buf" by simp
    then have set: "set_at buf d off = Inr ?buf" by (simp add: set_at_def)
    have len: "length ?buf = (off + length d) + total_length cs"
      using Cons.prems(2) Some by simp
    from Cons.prems(1) Some have "None \<in> set cs" by simp
    from Cons.IH [OF this len] Some set show ?thesis by simp
  qed
qed

text \<open>
  The loop throws exactly when the array has a hole; otherwise it yields the payloads in
  index order. The RangeError of \<^verbatim>\<open>set\<close> cannot occur: the buffer has the summed
  length.
\<close>

lemma assemble_eq:
  "assemble cs = (if None \<in> set cs then Inl TypeError else Inr (concat (map the cs)))"
  by (simp add: assemble_def fill_dense fill_hole)

lemma assemble_map_Some: "assemble (map Some ds) = Inr (concat ds)"
  by (simp add: assemble_eq comp_def)

lemma receivedCount_map_Some: "receivedCount (map Some ds) = length ds"
  by (simp add: receivedCount_def filter_map comp_def)

lemma receivedCount_update:
  assumes "i < length cs" and "cs ! i \<noteq> None"
  shows "receivedCount (cs[i := Some d]) = receivedCount cs"
proof -
  have "cs = take i cs @ [cs ! i] @ drop (Suc i) cs"
    using assms(1) by (simp add: id_take_nth_drop)
  then have "receivedCount cs =
      receivedCount (take i cs @ [cs ! i] @ drop (Suc i) cs)"
    by simp
  also have "\<dots> = receivedCount (take i cs) + 1 + receivedCount (drop (Suc i) cs)"
    using assms(2) by (simp add: receivedCount_def)
  finally have l: "receivedCount cs =
      receivedCount (take i cs) + 1 + receivedCount (drop (Suc i) cs)" .
  have "cs[i := Some d] = take i cs @ [Some d] @ drop (Suc i) cs"
    using assms(1) by (simp add: upd_conv_take_nth_drop)
  then have "receivedCount (cs[i := Some d]) =
      receivedCount (take i cs) + 1 + receivedCount (drop (Suc i) cs)"
    by (simp add: receivedCount_def)
  with l show ?thesis by simp
qed

subsection \<open>One notification, by header\<close>

lemma header_simps:
  "chunkIndex (i # r) = Some (unat i)"
  "totalChunks (i # t # p) = Some (unat t)"
  "chunkData (i # t # p) = p"
  "chunkIndex [] = None"
  "totalChunks [] = None"
  "totalChunks [i] = None"
  by (simp_all add: chunkIndex_def totalChunks_def chunkData_def)

lemmas eval_simps = onResponse_def buffered_def header_simps receivedCount_def assemble_eq
  initial_def Let_def chunk_log_def

lemmas demo_simps = decode_and_dispatch_def demo_env_def demo_parse_def handleResponse_def
  interpolates_def char_of_def bit_0

lemma buffered_first:
  "buffered s (0 # t # p) = \<lparr>chunks = [Some p], expectedChunks = Some (unat t)\<rparr>"
  by (simp add: buffered_def header_simps)

lemma onResponse_first:
  "onResponse env s (0 # t # p) =
     (if t = 1 then (initial, chunk_log (0 # t # p) # decode_and_dispatch env p, None)
      else (\<lparr>chunks = [Some p], expectedChunks = Some (unat t)\<rparr>, [chunk_log (0 # t # p)], None))"
proof -
  have one: "(Suc 0 = unat t) = (t = 1)"
    by (auto simp: word_unat_eq_iff)
  have "assemble [Some p] = Inr p"
    using assemble_map_Some [of "[p]"] by simp
  then show ?thesis
    by (simp add: onResponse_def buffered_first receivedCount_def initial_def one Let_def)
qed

lemma buffered_next:
  assumes "ds \<noteq> []" and "unat i = length ds"
  shows "buffered \<lparr>chunks = map Some ds, expectedChunks = e\<rparr> (i # t # p) =
           \<lparr>chunks = map Some (ds @ [p]), expectedChunks = e\<rparr>"
  using assms by (simp add: buffered_def header_simps)

lemma onResponse_next:
  assumes "ds \<noteq> []" and "unat i = length ds"
  shows "onResponse env \<lparr>chunks = map Some ds, expectedChunks = Some n\<rparr> (i # t # p) =
     (if Suc (length ds) = n
      then (initial, chunk_log (i # t # p) # decode_and_dispatch env (concat ds @ p), None)
      else (\<lparr>chunks = map Some (ds @ [p]), expectedChunks = Some n\<rparr>, [chunk_log (i # t # p)], None))"
proof -
  have "assemble (map Some (ds @ [p])) = Inr (concat ds @ p)"
    using assemble_map_Some [of "ds @ [p]"] by simp
  moreover have "receivedCount (map Some (ds @ [p])) = Suc (length ds)"
    using receivedCount_map_Some [of "ds @ [p]"] by simp
  ultimately show ?thesis
    unfolding onResponse_def buffered_next [OF assms] Let_def
    by (simp add: initial_def)
qed

lemma onResponse_thrown:
  "snd (snd (onResponse env s v)) =
     (if Some (receivedCount (chunks (buffered s v))) = expectedChunks (buffered s v)
         \<and> None \<in> set (chunks (buffered s v))
      then Some TypeError else None)"
  by (simp add: onResponse_def Let_def assemble_eq)

lemma onResponse_thrown_state:
  "snd (snd (onResponse env s v)) = Some TypeError \<Longrightarrow> fst (onResponse env s v) = buffered s v"
  by (simp add: onResponse_def Let_def assemble_eq split: if_splits)

subsection \<open>A buffer without holes stays without holes\<close>

lemma store_dense:
  assumes "None \<notin> set cs" and "case ix of None \<Rightarrow> True | Some i \<Rightarrow> i \<le> length cs"
  shows "None \<notin> set (store cs ix d)"
proof (cases ix)
  case None
  with assms show ?thesis by simp
next
  case (Some i)
  with assms(2) have "i \<le> length cs" by simp
  with assms(1) Some show ?thesis
    by (auto dest: set_update_subset_insert [THEN subsetD])
qed

lemma buffered_dense:
  assumes "None \<notin> set (chunks s)"
    and "case chunkIndex v of None \<Rightarrow> True | Some i \<Rightarrow> i \<le> length (chunks s)"
  shows "None \<notin> set (chunks (buffered s v))"
proof (cases "chunkIndex v = Some 0")
  case True
  then show ?thesis by (simp add: buffered_def)
next
  case False
  with store_dense [OF assms, of "chunkData v"] show ?thesis
    by (simp add: buffered_def)
qed

lemma onResponse_dense:
  assumes "None \<notin> set (chunks s)"
    and "case chunkIndex v of None \<Rightarrow> True | Some i \<Rightarrow> i \<le> length (chunks s)"
  shows "snd (snd (onResponse env s v)) = None
          \<and> None \<notin> set (chunks (fst (onResponse env s v)))"
proof -
  from buffered_dense [OF assms] have "None \<notin> set (chunks (buffered s v))" .
  then show ?thesis
    by (simp add: onResponse_def Let_def assemble_eq)
qed

subsection \<open>Indices below the expected count\<close>

lemma receivedCount_le: "receivedCount cs \<le> length cs"
  by (simp add: receivedCount_def)

lemma receivedCount_full:
  assumes "receivedCount cs = length cs"
  shows "None \<notin> set cs"
proof
  assume "None \<in> set cs"
  then have "length (filter (\<lambda>c. c \<noteq> None) cs) < length cs"
    by (rule length_filter_less) simp
  with assms show False by (simp add: receivedCount_def)
qed

lemma onResponse_within:
  assumes "case expectedChunks (buffered s v) of None \<Rightarrow> True
           | Some e \<Rightarrow> length (chunks (buffered s v)) \<le> e"
  shows "snd (snd (onResponse env s v)) = None"
proof (cases "Some (receivedCount (chunks (buffered s v))) = expectedChunks (buffered s v)")
  case True
  with assms have "length (chunks (buffered s v)) \<le> receivedCount (chunks (buffered s v))"
    by (auto split: option.splits)
  with receivedCount_le [of "chunks (buffered s v)"]
  have "receivedCount (chunks (buffered s v)) = length (chunks (buffered s v))" by simp
  then have "None \<notin> set (chunks (buffered s v))" by (rule receivedCount_full)
  then show ?thesis by (simp add: onResponse_thrown)
next
  case False
  then show ?thesis by (simp add: onResponse_thrown)
qed

subsection \<open>A framed message, fragment after fragment\<close>

lemma unat_byte: "n \<le> 255 \<Longrightarrow> unat (of_nat n :: byte) = n"
  by (simp add: unat_of_nat)

lemma notifications_rest:
  assumes "ds \<noteq> []" and "length ds + length qs = n" and "n \<le> 255" and "qs \<noteq> []"
  shows "notifications env \<lparr>chunks = map Some ds, expectedChunks = Some n\<rparr>
           (map (\<lambda>(i, p). frame i n p) (enumerate (length ds) qs)) =
         (initial, map chunk_log (map (\<lambda>(i, p). frame i n p) (enumerate (length ds) qs))
                   @ decode_and_dispatch env (concat ds @ concat qs))"
  using assms
proof (induction qs arbitrary: ds)
  case Nil
  then show ?case by simp
next
  case (Cons q qs)
  from Cons.prems have k: "length ds \<le> 255" by simp
  have idx: "unat (of_nat (length ds) :: byte) = length ds"
    using k by (rule unat_byte)
  note step = onResponse_next [OF Cons.prems(1) idx, of env n "of_nat n" q]
  show ?case
  proof (cases "qs = []")
    case True
    with Cons.prems have "Suc (length ds) = n" by simp
    with step True show ?thesis by (simp add: frame_def)
  next
    case False
    with Cons.prems have ne: "Suc (length ds) \<noteq> n" by auto
    have "length (ds @ [q]) + length qs = n" using Cons.prems by simp
    from Cons.IH [OF _ this Cons.prems(3) False]
    have ih: "notifications env \<lparr>chunks = map Some (ds @ [q]), expectedChunks = Some n\<rparr>
           (map (\<lambda>(i, p). frame i n p) (enumerate (Suc (length ds)) qs)) =
         (initial, map chunk_log (map (\<lambda>(i, p). frame i n p) (enumerate (Suc (length ds)) qs))
                   @ decode_and_dispatch env (concat ds @ q @ concat qs))"
      by simp
    from step ne have "onResponse env \<lparr>chunks = map Some ds, expectedChunks = Some n\<rparr>
        (frame (length ds) n q) =
        (\<lparr>chunks = map Some (ds @ [q]), expectedChunks = Some n\<rparr>,
         [chunk_log (frame (length ds) n q)], None)"
      by (simp add: frame_def)
    with ih show ?thesis by simp
  qed
qed

lemma notifications_framed:
  assumes "ps \<noteq> []" and "length ps \<le> 255"
  shows "notifications env s (framed ps) =
           (initial, map chunk_log (framed ps) @ decode_and_dispatch env (concat ps))"
proof -
  from assms(1) obtain p qs where ps: "ps = p # qs" by (cases ps) auto
  let ?n = "length ps"
  have n: "unat (of_nat ?n :: byte) = ?n" using assms(2) by (rule unat_byte)
  have one: "(of_nat ?n :: byte) = 1 \<longleftrightarrow> ?n = 1"
    using n by (auto simp: word_unat_eq_iff)
  have f0: "frame 0 ?n p = 0 # of_nat ?n # p" by (simp add: frame_def)
  note first = onResponse_first [of env s "of_nat ?n" p]
  show ?thesis
  proof (cases "qs = []")
    case True
    with ps have "?n = 1" by simp
    with one have "(of_nat ?n :: byte) = 1" by simp
    with first True ps show ?thesis
      by (simp add: framed_def frame_def)
  next
    case False
    with ps have "?n \<noteq> 1" by simp
    with one have ne: "(of_nat ?n :: byte) \<noteq> 1" by simp
    from first ne n have st: "onResponse env s (frame 0 ?n p) =
        (\<lparr>chunks = map Some [p], expectedChunks = Some ?n\<rparr>, [chunk_log (frame 0 ?n p)], None)"
      by (simp add: f0)
    have "length [p] + length qs = ?n" using ps by simp
    from notifications_rest [OF _ this assms(2) False, of env]
    have rest: "notifications env \<lparr>chunks = map Some [p], expectedChunks = Some ?n\<rparr>
           (map (\<lambda>(i, p). frame i ?n p) (enumerate (Suc 0) qs)) =
         (initial, map chunk_log (map (\<lambda>(i, p). frame i ?n p) (enumerate (Suc 0) qs))
                   @ decode_and_dispatch env (p @ concat qs))"
      by simp
    have fr: "framed ps = frame 0 ?n p # map (\<lambda>(i, p). frame i ?n p) (enumerate (Suc 0) qs)"
      by (simp add: framed_def ps)
    show ?thesis
      unfolding fr using st rest by (simp add: ps)
  qed
qed

section \<open>Properties\<close>

subsection \<open>Reassembly\<close>

text \<open>
  C1, as stated: the fragment with index 1 of 2 and payload B, then the fragment with
  index 0 of 2 and payload A, make the reassembler emit A followed by B. On the code this
  fails. With A the text \<^verbatim>\<open>{"typ\<close> and B the text \<^verbatim>\<open>e":"pong"}\<close>, starting
  idle, the two notifications leave only their two log lines: nothing is decoded or
  dispatched, and the reassembler is left holding A alone and waiting for a second
  fragment. Had A followed by B been emitted, the trace would carry the two lines of the
  \<^verbatim>\<open>pong\<close> message.
\<close>

theorem out_of_order_counterexample:
  "notifications demo_env initial
     [[1, 2, 0x65, 0x22, 0x3A, 0x22, 0x70, 0x6F, 0x6E, 0x67, 0x22, 0x7D],
      [0, 2, 0x7B, 0x22, 0x74, 0x79, 0x70]] =
   (\<lparr>chunks = [Some [0x7B, 0x22, 0x74, 0x79, 0x70]], expectedChunks = Some 2\<rparr>,
    [Log (ChunkRecu (Some 2) (Some 2) 10) '''', Log (ChunkRecu (Some 1) (Some 2) 5) ''''])
   \<and> decode_and_dispatch demo_env
         ([0x7B, 0x22, 0x74, 0x79, 0x70] @ [0x65, 0x22, 0x3A, 0x22, 0x70, 0x6F, 0x6E, 0x67, 0x22, 0x7D]) =
       [Log (Recu (Some (JStr ''pong''))) '''', Log ConnexionVerifiee ''success'']
   \<and> notifications demo_env initial
     [[1, 2, 0x65, 0x22, 0x3A, 0x22, 0x70, 0x6F, 0x6E, 0x67, 0x22, 0x7D],
      [0, 2, 0x7B, 0x22, 0x74, 0x79, 0x70]] \<noteq>
     (initial,
      [Log (ChunkRecu (Some 2) (Some 2) 10) '''', Log (ChunkRecu (Some 1) (Some 2) 5) '''']
      @ decode_and_dispatch demo_env
         ([0x7B, 0x22, 0x74, 0x79, 0x70] @ [0x65, 0x22, 0x3A, 0x22, 0x70, 0x6F, 0x6E, 0x67, 0x22, 0x7D]))"
  by (simp add: eval_simps demo_simps)

text \<open>
  C1, amended. Index 0 always empties the buffer (lines 166-169), so a fragment that
  arrives before the index-0 fragment of its message is lost: from the idle state, index
  1 of 2 with payload B and then index 0 of 2 with payload A emit nothing and leave the
  buffer holding A, with two fragments expected. Concatenation by index order rather than
  arrival order holds among the fragments that follow index 0: from any state, index 0 of
  3 with A, then index 2 of 3 with C, then index 1 of 3 with B, decode and dispatch A
  followed by B followed by C, and the state is reset.
\<close>

theorem index_order_after_first:
  "notifications env initial [1 # 2 # B, 0 # 2 # A] =
     (\<lparr>chunks = [Some A], expectedChunks = Some 2\<rparr>,
      [chunk_log (1 # 2 # B), chunk_log (0 # 2 # A)])
   \<and> notifications env s [0 # 3 # A, 2 # 3 # C, 1 # 3 # B] =
     (initial, [chunk_log (0 # 3 # A), chunk_log (2 # 3 # C), chunk_log (1 # 3 # B)]
               @ decode_and_dispatch env (A @ B @ C))"
  by (simp add: onResponse_def buffered_def header_simps receivedCount_def assemble_eq
        initial_def Let_def)

text \<open>
  C2. Round trip: a message cut into payloads \<open>ps\<close> (at least one, at most 255, the
  largest count a header byte holds), framed with index and total and delivered in index
  order, is reassembled to exactly \<open>concat ps\<close>, whatever state the reassembler was in
  before: the trace is one log line per fragment followed by the decoding and dispatch of
  \<open>concat ps\<close>, and the state is reset.
\<close>

theorem round_trip:
  assumes "ps \<noteq> []" and "length ps \<le> 255"
  shows "notifications env s (framed ps) =
           (initial, map chunk_log (framed ps) @ decode_and_dispatch env (concat ps))"
  using assms by (rule notifications_framed)

text \<open>
  An instance of the round trip: \<^verbatim>\<open>{"typ\<close> and \<^verbatim>\<open>e":"pong"}\<close>, delivered to a
  reassembler that still holds the rest of an unfinished message.
\<close>

theorem round_trip_witness:
  "[[0x7B, 0x22, 0x74, 0x79, 0x70], [0x65, 0x22, 0x3A, 0x22, 0x70, 0x6F, 0x6E, 0x67, 0x22, 0x7D :: byte]] \<noteq> []
   \<and> length [[0x7B, 0x22, 0x74, 0x79, 0x70], [0x65, 0x22, 0x3A, 0x22, 0x70, 0x6F, 0x6E, 0x67, 0x22, 0x7D :: byte]] \<le> 255
   \<and> framed [[0x7B, 0x22, 0x74, 0x79, 0x70], [0x65, 0x22, 0x3A, 0x22, 0x70, 0x6F, 0x6E, 0x67, 0x22, 0x7D]] =
       [[0, 2, 0x7B, 0x22, 0x74, 0x79, 0x70], [1, 2, 0x65, 0x22, 0x3A, 0x22, 0x70, 0x6F, 0x6E, 0x67, 0x22, 0x7D]]
   \<and> notifications demo_env \<lparr>chunks = [Some [1], None, Some [2]], expectedChunks = Some 5\<rparr>
        [[0, 2, 0x7B, 0x22, 0x74, 0x79, 0x70], [1, 2, 0x65, 0x22, 0x3A, 0x22, 0x70, 0x6F, 0x6E, 0x67, 0x22, 0x7D]] =
       (initial,
        [Log (ChunkRecu (Some 1) (Some 2) 5) '''', Log (ChunkRecu (Some 2) (Some 2) 10) '''',
         Log (Recu (Some (JStr ''pong''))) '''', Log ConnexionVerifiee ''success''])"
  using round_trip [of "[[0x7B, 0x22, 0x74, 0x79, 0x70], [0x65, 0x22, 0x3A, 0x22, 0x70, 0x6F, 0x6E, 0x67, 0x22, 0x7D]]"
      demo_env "\<lparr>chunks = [Some [1], None, Some [2]], expectedChunks = Some 5\<rparr>"]
  by (simp add: framed_def frame_def chunk_log_def header_simps demo_simps)

text \<open>
  C3, as stated: no fragment makes \<^verbatim>\<open>onResponse\<close> raise an exception, also when its
  index is not below its total. On the code this fails: after index 0 of 2, a fragment
  with index 2 of 2 is stored past a hole, the count of stored payloads reaches the
  expected 2, and the loop over the array throws a TypeError at the hole. The exception
  leaves the listener and the buffer is not reset.
\<close>

theorem gap_counterexample:
  "notifications demo_env initial [[0, 2, 65], [2, 2, 67]] =
     (\<lparr>chunks = [Some [65], None, Some [67]], expectedChunks = Some 2\<rparr>,
      [Log (ChunkRecu (Some 1) (Some 2) 1) '''', Log (ChunkRecu (Some 3) (Some 2) 1) '''',
       Uncaught TypeError])
   \<and> snd (snd (onResponse demo_env \<lparr>chunks = [Some [65]], expectedChunks = Some 2\<rparr> [2, 2, 67]))
       = Some TypeError"
  by (simp add: eval_simps)

text \<open>
  C3, amended. The code validates no header and drops or logs no anomaly. An exception
  leaves \<^verbatim>\<open>onResponse\<close> exactly when, once the payload is stored, the number of stored
  payloads equals the expected count while the array has a hole; it is then a TypeError,
  and the buffer is not reset. No exception is raised when, once the payload is stored,
  the buffer is no longer than the expected count: every index stored for the message,
  this fragment's included, is below the expected total. No exception is raised either
  while the buffer has no hole and the index of the notification is at most the current
  length of the buffer (index 0, an index already stored, or the next one) or the
  notification is too short to carry an index, whatever its total is; the buffer then
  stays without a hole.
\<close>

theorem exception_iff_gap:
  "snd (snd (onResponse env s v)) =
      (if Some (receivedCount (chunks (buffered s v))) = expectedChunks (buffered s v)
          \<and> None \<in> set (chunks (buffered s v))
       then Some TypeError else None)
   \<and> ((case expectedChunks (buffered s v) of None \<Rightarrow> True
        | Some e \<Rightarrow> length (chunks (buffered s v)) \<le> e)
      \<longrightarrow> snd (snd (onResponse env s v)) = None)
   \<and> (None \<notin> set (chunks s)
        \<and> (case chunkIndex v of None \<Rightarrow> True | Some i \<Rightarrow> i \<le> length (chunks s))
      \<longrightarrow> snd (snd (onResponse env s v)) = None
          \<and> None \<notin> set (chunks (fst (onResponse env s v))))
   \<and> (snd (snd (onResponse env s v)) = Some TypeError
      \<longrightarrow> fst (onResponse env s v) = buffered s v)"
  using onResponse_thrown [of env s v] onResponse_dense [of s v env] onResponse_within [of s v env]
    onResponse_thrown_state [of env s v]
  by simp

text \<open>
  An instance: with index 0 of 2 stored, index 1 raises nothing, index 2 raises the
  TypeError and leaves the buffer with its hole.
\<close>

theorem exception_iff_gap_witness:
  "None \<notin> set (chunks \<lparr>chunks = [Some [65]], expectedChunks = Some 2\<rparr>)
   \<and> (case chunkIndex [1, 2, 66] of None \<Rightarrow> True
       | Some i \<Rightarrow> i \<le> length (chunks \<lparr>chunks = [Some [65]], expectedChunks = Some 2\<rparr>))
   \<and> (case expectedChunks (buffered \<lparr>chunks = [Some [65]], expectedChunks = Some 2\<rparr> [1, 2, 66]) of
         None \<Rightarrow> True
       | Some e \<Rightarrow> length (chunks (buffered \<lparr>chunks = [Some [65]], expectedChunks = Some 2\<rparr> [1, 2, 66])) \<le> e)
   \<and> snd (snd (onResponse demo_env \<lparr>chunks = [Some [65]], expectedChunks = Some 2\<rparr> [1, 2, 66])) = None
   \<and> snd (snd (onResponse demo_env \<lparr>chunks = [Some [65]], expectedChunks = Some 2\<rparr> [2, 2, 67]))
       = Some TypeError
   \<and> fst (onResponse demo_env \<lparr>chunks = [Some [65]], expectedChunks = Some 2\<rparr> [2, 2, 67])
       = \<lparr>chunks = [Some [65], None, Some [67]], expectedChunks = Some 2\<rparr>"
  using exception_iff_gap [of demo_env "\<lparr>chunks = [Some [65]], expectedChunks = Some 2\<rparr>" "[1, 2, 66]"]
    exception_iff_gap [of demo_env "\<lparr>chunks = [Some [65]], expectedChunks = Some 2\<rparr>" "[2, 2, 67]"]
  by (simp add: eval_simps demo_simps)

text \<open>
  C4. Abandonment: in every state, a fragment with index 0 replaces the buffer by one
  that holds this fragment's payload alone and expects this fragment's total. Nothing of
  the state before enters the result: no message is emitted for what was buffered. The
  only message that can be emitted on this notification is the new one, when its total
  is 1.
\<close>

theorem abandonment:
  "buffered s (0 # t # p) = \<lparr>chunks = [Some p], expectedChunks = Some (unat t)\<rparr>
   \<and> onResponse env s (0 # t # p) =
       (if t = 1 then (initial, chunk_log (0 # t # p) # decode_and_dispatch env p, None)
        else (\<lparr>chunks = [Some p], expectedChunks = Some (unat t)\<rparr>,
              [chunk_log (0 # t # p)], None))"
  using buffered_first [of s t p] onResponse_first [of env s t p] by simp

text \<open>
  C5. Duplicate fragment: index 0 of 2 delivered twice emits nothing and leaves the buffer
  holding the payload delivered last, with 2 expected; the fragment with index 1 then
  completes the message as the last index-0 payload followed by its own, not a payload of
  double length. In general, storing at an index that is already populated overwrites the
  payload there and leaves the count of populated indices unchanged.
\<close>

theorem duplicate_fragment:
  "notifications env s [0 # 2 # X, 0 # 2 # Y] =
     (\<lparr>chunks = [Some Y], expectedChunks = Some 2\<rparr>,
      [chunk_log (0 # 2 # X), chunk_log (0 # 2 # Y)])
   \<and> notifications env s [0 # 2 # X, 0 # 2 # Y, 1 # 2 # B] =
     (initial, [chunk_log (0 # 2 # X), chunk_log (0 # 2 # Y), chunk_log (1 # 2 # B)]
               @ decode_and_dispatch env (Y @ B))
   \<and> (i < length cs \<and> cs ! i \<noteq> None \<longrightarrow>
        store cs (Some i) d = cs[i := Some d]
        \<and> receivedCount (store cs (Some i) d) = receivedCount cs)"
proof -
  have "notifications env s [0 # 2 # X, 0 # 2 # Y] =
     (\<lparr>chunks = [Some Y], expectedChunks = Some 2\<rparr>,
      [chunk_log (0 # 2 # X), chunk_log (0 # 2 # Y)])"
    by (simp add: onResponse_first)
  moreover have "notifications env s [0 # 2 # X, 0 # 2 # Y, 1 # 2 # B] =
     (initial, [chunk_log (0 # 2 # X), chunk_log (0 # 2 # Y), chunk_log (1 # 2 # B)]
               @ decode_and_dispatch env (Y @ B))"
    using onResponse_next [of "[Y]" 1 env 2 2 B] by (simp add: onResponse_first)
  moreover have "i < length cs \<and> cs ! i \<noteq> None \<longrightarrow>
        store cs (Some i) d = cs[i := Some d]
        \<and> receivedCount (store cs (Some i) d) = receivedCount cs"
    by (simp add: receivedCount_update)
  ultimately show ?thesis by blast
qed

text \<open>
  An instance: index 1 stored twice in a buffer of two, and index 0 of 2 delivered twice
  from the idle state.
\<close>

theorem duplicate_fragment_witness:
  "(1::nat) < length [Some [65::byte], Some [66]] \<and> [Some [65::byte], Some [66]] ! 1 \<noteq> None
   \<and> store [Some [65], Some [66]] (Some 1) [67] = [Some [65], Some [67]]
   \<and> receivedCount (store [Some [65], Some [66]] (Some 1) [67]) = 2
   \<and> notifications demo_env initial [[0, 2, 65], [0, 2, 66]] =
       (\<lparr>chunks = [Some [66]], expectedChunks = Some 2\<rparr>,
        [Log (ChunkRecu (Some 1) (Some 2) 1) '''', Log (ChunkRecu (Some 1) (Some 2) 1) ''''])"
  using duplicate_fragment [of demo_env initial "[65]" "[66]" "[67]" 1 "[Some [65], Some [66]]" "[67]"]
  by (simp add: receivedCount_def chunk_log_def header_simps)

text \<open>
  C6. Single-fragment message: a fragment whose total is 1 and whose index is below its
  total (so the index is 0) completes at once, in every state: its payload alone is
  decoded and dispatched, exactly as decoding the raw payload directly, and the state is
  reset.
\<close>

theorem single_fragment:
  assumes "unat i < unat t" and "t = 1"
  shows "onResponse env s (i # t # p) =
           (initial, chunk_log (0 # 1 # p) # decode_and_dispatch env p, None)"
proof -
  from assms have "unat i = 0" by simp
  then have "i = 0" by (simp add: unat_eq_zero)
  with assms(2) onResponse_first [of env s 1 p] show ?thesis by simp
qed

text \<open>An instance: the text \<^verbatim>\<open>{"type":"pong"}\<close> in one fragment.\<close>

theorem single_fragment_witness:
  "unat (0 :: byte) < unat (1 :: byte) \<and> (1 :: byte) = 1
   \<and> onResponse demo_env \<lparr>chunks = [Some [65]], expectedChunks = Some 2\<rparr>
        [0, 1, 0x7B, 0x22, 0x74, 0x79, 0x70, 0x65, 0x22, 0x3A, 0x22, 0x70, 0x6F, 0x6E, 0x67, 0x22, 0x7D] =
       (initial,
        [Log (ChunkRecu (Some 1) (Some 1) 15) '''',
         Log (Recu (Some (JStr ''pong''))) '''', Log ConnexionVerifiee ''success''], None)"
  using single_fragment [of 0 1 demo_env "\<lparr>chunks = [Some [65]], expectedChunks = Some 2\<rparr>"
      "[0x7B, 0x22, 0x74, 0x79, 0x70, 0x65, 0x22, 0x3A, 0x22, 0x70, 0x6F, 0x6E, 0x67, 0x22, 0x7D]"]
  by (simp add: chunk_log_def header_simps demo_simps)

text \<open>
  C7. Reset after completion: when the completion test holds and the buffer is
  concatenated to bytes \<open>M\<close>, the notification returns with the buffer empty and the
  expected count 0, whatever parsing and dispatch do and without an exception. When
  \<open>M\<close> does not parse, the only effect besides the fragment's log line is the error log
  line: nothing is dispatched. Otherwise the effects are those of
  \<^verbatim>\<open>handleResponse\<close>, followed by an error log line if it threw. The next fragment
  with index 0 starts from a buffer that holds that fragment alone.
\<close>

theorem reset_after_completion:
  assumes "Some (receivedCount (chunks (buffered s v))) = expectedChunks (buffered s v)"
    and "assemble (chunks (buffered s v)) = Inr M"
  shows "onResponse env s v = (initial, chunk_log v # decode_and_dispatch env M, None)
    \<and> (case parse env (decode env M) of
          Inl e \<Rightarrow> decode_and_dispatch env M = [Log (ErreurJSON e) ''error'']
        | Inr response \<Rightarrow>
            decode_and_dispatch env M =
              fst (handleResponse env response)
              @ (case snd (handleResponse env response) of
                   None \<Rightarrow> [] | Some e \<Rightarrow> [Log (ErreurJSON e) ''error'']))
    \<and> buffered (fst (onResponse env s v)) (0 # t # p) =
          \<lparr>chunks = [Some p], expectedChunks = Some (unat t)\<rparr>"
proof -
  from assms have r: "onResponse env s v = (initial, chunk_log v # decode_and_dispatch env M, None)"
    by (simp add: onResponse_def Let_def initial_def)
  have d: "case parse env (decode env M) of
          Inl e \<Rightarrow> decode_and_dispatch env M = [Log (ErreurJSON e) ''error'']
        | Inr response \<Rightarrow>
            decode_and_dispatch env M =
              fst (handleResponse env response)
              @ (case snd (handleResponse env response) of
                   None \<Rightarrow> [] | Some e \<Rightarrow> [Log (ErreurJSON e) ''error''])"
    by (auto simp: decode_and_dispatch_def Let_def split: sum.splits option.splits prod.splits)
  from r d buffered_first show ?thesis by simp
qed

text \<open>
  An instance: the second of two fragments completes the text \<^verbatim>\<open>{{\<close>, which does
  not parse.
\<close>

theorem reset_after_completion_witness:
  "Some (receivedCount (chunks (buffered \<lparr>chunks = [Some [0x7B]], expectedChunks = Some 2\<rparr> [1, 2, 0x7B])))
     = expectedChunks (buffered \<lparr>chunks = [Some [0x7B]], expectedChunks = Some 2\<rparr> [1, 2, 0x7B])
   \<and> assemble (chunks (buffered \<lparr>chunks = [Some [0x7B]], expectedChunks = Some 2\<rparr> [1, 2, 0x7B]))
       = Inr [0x7B, 0x7B]
   \<and> parse demo_env (decode demo_env [0x7B, 0x7B]) = Inl SyntaxError
   \<and> onResponse demo_env \<lparr>chunks = [Some [0x7B]], expectedChunks = Some 2\<rparr> [1, 2, 0x7B] =
       (initial, [Log (ChunkRecu (Some 2) (Some 2) 1) '''', Log (ErreurJSON SyntaxError) ''error''], None)"
  using reset_after_completion [of "\<lparr>chunks = [Some [0x7B]], expectedChunks = Some 2\<rparr>" "[1, 2, 0x7B]"
      "[0x7B, 0x7B]" demo_env 2 "[]"]
  by (simp add: eval_simps demo_simps)

text \<open>
  C10. A fragment with an index other than 0 that arrives in the idle state (empty
  buffer, expected count 0) is stored past holes and completes nothing: one index is
  populated while 0 are expected, so the notification only logs the fragment; nothing is
  decoded or dispatched and no exception is raised.
\<close>

theorem stray_fragment_when_idle:
  assumes "i \<noteq> 0"
  shows "onResponse env initial (i # r) =
           (\<lparr>chunks = replicate (unat i) None @ [Some (tl r)], expectedChunks = Some 0\<rparr>,
            [chunk_log (i # r)], None)
    \<and> receivedCount (replicate (unat i) None @ [Some (tl r)]) = 1"
proof -
  from assms have "unat i \<noteq> 0" by (simp add: unat_eq_zero)
  moreover have "chunkData (i # r) = tl r" by (simp add: chunkData_def drop_Suc)
  moreover have "receivedCount (replicate (unat i) None @ [Some (tl r)]) = 1"
    by (simp add: receivedCount_def)
  ultimately show ?thesis
    by (simp add: onResponse_def buffered_def header_simps initial_def Let_def)
qed

text \<open>An instance: index 1 of 2 arriving first.\<close>

theorem stray_fragment_when_idle_witness:
  "(1 :: byte) \<noteq> 0
   \<and> onResponse demo_env initial [1, 2, 66] =
       (\<lparr>chunks = [None, Some [66]], expectedChunks = Some 0\<rparr>,
        [Log (ChunkRecu (Some 2) (Some 2) 1) ''''], None)"
  using stray_fragment_when_idle [of 1 demo_env "[2, 66]"]
  by (simp add: chunk_log_def header_simps)

subsection \<open>Dispatch\<close>

text \<open>
  C8. Dispatch by type: for a decoded message that is not \<^verbatim>\<open>null\<close> and whose type
  converts to a string (as every string, number, boolean or absent type does), if the
  type is none of the seven case labels, \<^verbatim>\<open>handleResponse\<close> only logs the receipt:
  no handler runs and no exception is raised. If the type is one of them, and the fields
  \<^verbatim>\<open>ssid\<close> and \<^verbatim>\<open>message\<close> that two of the handlers print convert as well (as
  every string or absent field does), the receipt line is followed by the effect of
  exactly one handler.
\<close>

theorem dispatch_by_type:
  assumes "response \<noteq> JNull" and "interpolates (member response ''type'')"
  shows "(member response ''type'' \<notin> set (map (\<lambda>t. Some (JStr t)) recognized_types) \<longrightarrow>
            handleResponse env response = ([Log (Recu (member response ''type'')) ''''], None))
    \<and> (member response ''type'' \<in> set (map (\<lambda>t. Some (JStr t)) recognized_types)
        \<and> interpolates (member response ''ssid'') \<and> interpolates (member response ''message'') \<longrightarrow>
          (\<exists>e. handler_effect e
             \<and> fst (handleResponse env response) = [Log (Recu (member response ''type'')) '''', e]))
    \<and> (interpolates (member response ''ssid'') \<and> interpolates (member response ''message'') \<longrightarrow>
          length (filter handler_effect (fst (handleResponse env response))) =
            (if member response ''type'' \<in> set (map (\<lambda>t. Some (JStr t)) recognized_types)
             then 1 else 0))"
  using assms
  by (simp add: handleResponse_def recognized_types_def invoke_def Let_def)

text \<open>
  An instance: the type \<^verbatim>\<open>unsupported_x\<close> reaches no handler; the type
  \<^verbatim>\<open>error\<close> with a string as message reaches the \<^verbatim>\<open>error\<close> case alone.
\<close>

theorem dispatch_by_type_witness:
  "JObj [(''type'', JStr ''unsupported_x'')] \<noteq> (JNull :: unit json)
   \<and> interpolates (member (JObj [(''type'', JStr ''unsupported_x'')] :: unit json) ''type'')
   \<and> member (JObj [(''type'', JStr ''unsupported_x'')] :: unit json) ''type''
        \<notin> set (map (\<lambda>t. Some (JStr t)) recognized_types)
   \<and> handleResponse demo_env (JObj [(''type'', JStr ''unsupported_x'')]) =
        ([Log (Recu (Some (JStr ''unsupported_x''))) ''''], None)
   \<and> JObj [(''type'', JStr ''error''), (''message'', JStr ''scan failed'')] \<noteq> (JNull :: unit json)
   \<and> interpolates
        (member (JObj [(''type'', JStr ''error''), (''message'', JStr ''scan failed'')] :: unit json) ''type'')
   \<and> member (JObj [(''type'', JStr ''error''), (''message'', JStr ''scan failed'')] :: unit json) ''type''
        \<in> set (map (\<lambda>t. Some (JStr t)) recognized_types)
   \<and> interpolates
        (member (JObj [(''type'', JStr ''error''), (''message'', JStr ''scan failed'')] :: unit json) ''ssid'')
   \<and> interpolates
        (member (JObj [(''type'', JStr ''error''), (''message'', JStr ''scan failed'')] :: unit json) ''message'')
   \<and> handleResponse demo_env (JObj [(''type'', JStr ''error''), (''message'', JStr ''scan failed'')]) =
        ([Log (Recu (Some (JStr ''error''))) '''',
          Log (Erreur (Some (JStr ''scan failed''))) ''error''], None)
   \<and> length (filter handler_effect
        (fst (handleResponse demo_env
               (JObj [(''type'', JStr ''error''), (''message'', JStr ''scan failed'')])))) = 1"
  using dispatch_by_type [of "JObj [(''type'', JStr ''unsupported_x'')]" demo_env]
    dispatch_by_type [of "JObj [(''type'', JStr ''error''), (''message'', JStr ''scan failed'')]" demo_env]
  by (simp add: recognized_types_def handleResponse_def interpolates_def)

subsection \<open>Sending\<close>

text \<open>
  C9. Called while \<^verbatim>\<open>commandChar\<close> is still null, \<^verbatim>\<open>sendCommand\<close> logs
  "Non connecte" as an error and returns: nothing is written to the transport and no
  exception is raised, whatever the command object and the platform functions are.
\<close>

theorem sendCommand_not_connected:
  "sendCommand stringify encode None cmd = ([Log NonConnecte ''error''], None)"
  by (simp add: sendCommand_def)

end
